theory Spec2Isabelle
  imports Complex_Main "HOL-Library.Word"
begin

section \<open>JavaScript values\<close>

text \<open>
  The program is TypeScript running in a browser.  Its strings are sequences of
  16-bit code units, its numbers are IEEE 754 doubles, and the value that
  \<^verbatim>\<open>JSON.parse\<close> returns is any JSON value: the cast
  \<^verbatim>\<open>result as MoveSuggestion\<close> is erased at run time.  The model therefore
  keeps all JSON values, not only well-shaped suggestions.
\<close>

type_synonym cu = "16 word"
type_synonym jsstring = "cu list"

text \<open>String literals of the source, written with the characters of Latin-1.\<close>

definition latin1 :: "string \<Rightarrow> jsstring" where
  "latin1 s = map of_char s"

text \<open>
  A number is a finite double, given by its exact rational value, or one of the
  special values.  \<open>Finite 0\<close> is \<open>+0\<close>.
\<close>

datatype jsnum = Finite rat | NegZero | PosInf | NegInf | NaN

datatype jsvalue =
    JUndefined
  | JNull
  | JBool bool
  | JNumber jsnum
  | JString jsstring
  | JArray "jsvalue list"
  | JObject "(jsstring \<times> jsvalue) list"

text \<open>
  Thrown values.  \<open>Error\<close> is \<^verbatim>\<open>new Error(msg)\<close> of the source, \<open>TypeError\<close>
  is raised by the engine, and \<open>Rejected\<close> is the rejection reason of an external
  promise (the screen-capture prompt, the remote call) with its \<^verbatim>\<open>message\<close>
  property when it has one.  A promise may also reject with \<^verbatim>\<open>null\<close> or
  \<^verbatim>\<open>undefined\<close>: these are \<open>Thrown_null\<close> and \<open>Thrown_undefined\<close>.
\<close>

datatype js_exn =
    Error jsstring
  | TypeError jsstring
  | Rejected "jsstring option"
  | Thrown_null
  | Thrown_undefined

subsection \<open>Decimal literals as doubles\<close>

text \<open>
  The Number value of a decimal literal is the double nearest to its
  mathematical value, ties going to the even significand; magnitudes that round
  to \<open>2 ^ 1024\<close> become infinite.  (ECMAScript lets an engine drop the digits after
  the twentieth; the model rounds the exact value, as the engines in use do.)
\<close>

text \<open>\<open>round_half_even p r\<close> is the integer nearest to \<open>p / r\<close>, the even one at a tie.\<close>

definition round_half_even :: "nat \<Rightarrow> nat \<Rightarrow> nat" where
  "round_half_even p r =
     (let f = p div r; m = p mod r
      in if 2 * m < r then f
         else if r < 2 * m then f + 1
         else if even f then f else f + 1)"

fun bit_length :: "nat \<Rightarrow> nat" where
  "bit_length n = (if n = 0 then 0 else Suc (bit_length (n div 2)))"

declare bit_length.simps [simp del]

text \<open>\<open>scale a g\<close> is \<open>a * 2 ^ g\<close> for \<open>0 \<le> g\<close> and \<open>a\<close> otherwise.\<close>

definition scale :: "nat \<Rightarrow> int \<Rightarrow> nat" where
  "scale a g = (if 0 \<le> g then a * 2 ^ nat g else a)"

text \<open>\<open>floor_log2 a b\<close> is the integer \<open>k\<close> with \<open>2 ^ k \<le> a / b < 2 ^ (k + 1)\<close>, for positive \<open>a\<close> and \<open>b\<close>.\<close>

definition floor_log2 :: "nat \<Rightarrow> nat \<Rightarrow> int" where
  "floor_log2 a b =
     (let g = int (bit_length a) - int (bit_length b)
      in if scale b g \<le> scale a (- g) then g else g - 1)"

text \<open>
  \<open>nearest_double a b\<close> rounds the positive fraction \<open>a / b\<close>: the unit in the
  last place is \<open>2 ^ u\<close>, with 53 significant bits and \<open>- 1074\<close> the least
  exponent, \<open>n\<close> is the significand, and the result is \<open>n * 2 ^ u\<close>.
\<close>

definition nearest_double :: "nat \<Rightarrow> nat \<Rightarrow> jsnum" where
  "nearest_double a b =
     (let u = max (floor_log2 a b - 52) (- 1074);
          n = round_half_even (scale a (- u)) (scale b u)
      in if 2 ^ 1024 \<le> scale n u then PosInf
         else Finite (of_nat (scale n u) / of_nat (scale 1 (- u))))"

text \<open>
  \<open>number_value neg m e\<close> is the Number value of the literal with sign \<open>neg\<close>,
  decimal digits \<open>m\<close> and decimal exponent \<open>e\<close>, that is of \<open>m * 10 ^ e\<close> with
  its sign.
\<close>

definition number_value :: "bool \<Rightarrow> nat \<Rightarrow> int \<Rightarrow> jsnum" where
  "number_value neg m e =
     (if m = 0 then (if neg then NegZero else Finite 0)
      else case (if 0 \<le> e then nearest_double (m * 10 ^ nat e) 1
                 else nearest_double m (10 ^ nat (- e))) of
             PosInf \<Rightarrow> if neg then NegInf else PosInf
           | Finite d \<Rightarrow>
               if d = 0 then (if neg then NegZero else Finite 0)
               else Finite (if neg then - d else d)
           | x \<Rightarrow> x)"

subsection \<open>Comparison and coercion\<close>

fun math_value :: "jsnum \<Rightarrow> rat" where
  "math_value (Finite q) = q"
| "math_value _ = 0"

text \<open>\<^verbatim>\<open>Number::lessThan\<close>; \<open>None\<close> is the result \<^verbatim>\<open>undefined\<close>.\<close>

fun less_than :: "jsnum \<Rightarrow> jsnum \<Rightarrow> bool option" where
  "less_than NaN _ = None"
| "less_than _ NaN = None"
| "less_than PosInf _ = Some False"
| "less_than _ PosInf = Some True"
| "less_than _ NegInf = Some False"
| "less_than NegInf _ = Some True"
| "less_than x y = Some (math_value x < math_value y)"

text \<open>
  \<^verbatim>\<open>ToNumber\<close>.  On strings, arrays and objects ECMAScript goes through
  \<^verbatim>\<open>StringToNumber\<close> and \<^verbatim>\<open>ToPrimitive\<close>, which may also throw; that part is not
  modelled and is taken as the parameter \<open>coerce\<close>.
\<close>

fun ToNumber :: "(jsvalue \<Rightarrow> js_exn + jsnum) \<Rightarrow> jsvalue \<Rightarrow> js_exn + jsnum" where
  "ToNumber coerce JUndefined = Inr NaN"
| "ToNumber coerce JNull = Inr (Finite 0)"
| "ToNumber coerce (JBool b) = Inr (Finite (if b then 1 else 0))"
| "ToNumber coerce (JNumber n) = Inr n"
| "ToNumber coerce v = coerce v"

text \<open>\<^verbatim>\<open>v > lit\<close> for a number literal \<open>lit\<close> on the right.\<close>

definition greater_than :: "(jsvalue \<Rightarrow> js_exn + jsnum) \<Rightarrow> jsvalue \<Rightarrow> jsnum \<Rightarrow> js_exn + bool" where
  "greater_than coerce v lit =
     (case ToNumber coerce v of
        Inl e \<Rightarrow> Inl e
      | Inr n \<Rightarrow> Inr (case less_than lit n of None \<Rightarrow> False | Some b \<Rightarrow> b))"

text \<open>
  Reading a property whose name no built-in prototype defines (here
  \<^verbatim>\<open>confidence\<close>): \<^verbatim>\<open>null\<close> and \<^verbatim>\<open>undefined\<close> throw a \<^verbatim>\<open>TypeError\<close>, an
  object gives its own property or \<^verbatim>\<open>undefined\<close>, every other value gives
  \<^verbatim>\<open>undefined\<close>.  The wording of the \<^verbatim>\<open>TypeError\<close> is the engine's (here V8's);
  nothing below depends on it.
\<close>

definition TypeError_read :: "string \<Rightarrow> jsstring \<Rightarrow> js_exn" where
  "TypeError_read what name =
     TypeError (latin1 (''Cannot read properties of '' @ what @ '' (reading '' @ [CHR 0x27])
       @ name @ latin1 ([CHR 0x27] @ '')''))"

text \<open>
  \<^verbatim>\<open>err.message\<close> of a caught value: the message, \<open>None\<close> where the value has
  none, and a \<^verbatim>\<open>TypeError\<close> where the value is \<^verbatim>\<open>null\<close> or \<^verbatim>\<open>undefined\<close>.
\<close>

fun message :: "js_exn \<Rightarrow> js_exn + jsstring option" where
  "message (Error m) = Inr (Some m)"
| "message (TypeError m) = Inr (Some m)"
| "message (Rejected m) = Inr m"
| "message Thrown_null = Inl (TypeError_read ''null'' (latin1 ''message''))"
| "message Thrown_undefined = Inl (TypeError_read ''undefined'' (latin1 ''message''))"

fun get_property :: "jsvalue \<Rightarrow> jsstring \<Rightarrow> js_exn + jsvalue" where
  "get_property JUndefined name = Inl (TypeError_read ''undefined'' name)"
| "get_property JNull name = Inl (TypeError_read ''null'' name)"
| "get_property (JObject kvs) name =
     Inr (case map_of kvs name of None \<Rightarrow> JUndefined | Some v \<Rightarrow> v)"
| "get_property _ name = Inr JUndefined"

section \<open>\<^verbatim>\<open>JSON.parse\<close>\<close>

subsection \<open>Tokens\<close>

datatype token =
    LBrace | RBrace | LBracket | RBracket | Colon | Comma
  | TString jsstring | TNumber jsnum | TTrue | TFalse | TNull

definition is_ws :: "cu \<Rightarrow> bool" where
  "is_ws c \<longleftrightarrow> c = 0x09 \<or> c = 0x0A \<or> c = 0x0D \<or> c = 0x20"

definition is_digit :: "cu \<Rightarrow> bool" where
  "is_digit c \<longleftrightarrow> 0x30 \<le> c \<and> c \<le> 0x39"

definition hex_value :: "cu \<Rightarrow> nat option" where
  "hex_value c =
     (if 0x30 \<le> c \<and> c \<le> 0x39 then Some (unat c - 0x30)
      else if 0x41 \<le> c \<and> c \<le> 0x46 then Some (unat c - 0x41 + 10)
      else if 0x61 \<le> c \<and> c \<le> 0x66 then Some (unat c - 0x61 + 10)
      else None)"

definition hex4 :: "cu \<Rightarrow> cu \<Rightarrow> cu \<Rightarrow> cu \<Rightarrow> cu option" where
  "hex4 a b c d =
     (case (hex_value a, hex_value b, hex_value c, hex_value d) of
        (Some x, Some y, Some z, Some w) \<Rightarrow> Some (of_nat (((x * 16 + y) * 16 + z) * 16 + w))
      | _ \<Rightarrow> None)"

text \<open>The single-character escapes: \<^verbatim>\<open>\" \\ \/ \b \f \n \r \t\<close>.\<close>

definition unescape :: "cu \<Rightarrow> cu option" where
  "unescape e =
     (if e = 0x22 \<or> e = 0x5C \<or> e = 0x2F then Some e
      else if e = 0x62 then Some 0x08
      else if e = 0x66 then Some 0x0C
      else if e = 0x6E then Some 0x0A
      else if e = 0x72 then Some 0x0D
      else if e = 0x74 then Some 0x09
      else None)"

text \<open>
  \<open>scan_string\<close> reads a string after its opening quote and returns its value
  and the input after the closing quote.  Control characters below \<open>0x20\<close> are
  not allowed unescaped.
\<close>

fun scan_string :: "cu list \<Rightarrow> (jsstring \<times> cu list) option" where
  "scan_string [] = None"
| "scan_string (c # cs) =
     (if c = 0x22 then Some ([], cs)
      else if c < 0x20 then None
      else if c = 0x5C then
        (case cs of
           [] \<Rightarrow> None
         | e # cs' \<Rightarrow>
             if e = 0x75 then
               (case cs' of
                  h1 # h2 # h3 # h4 # cs'' \<Rightarrow>
                    (case hex4 h1 h2 h3 h4 of
                       None \<Rightarrow> None
                     | Some u \<Rightarrow> map_option (apfst ((#) u)) (scan_string cs''))
                | _ \<Rightarrow> None)
             else
               (case unescape e of
                  None \<Rightarrow> None
                | Some u \<Rightarrow> map_option (apfst ((#) u)) (scan_string cs')))
      else map_option (apfst ((#) c)) (scan_string cs))"

text \<open>Numbers: \<^verbatim>\<open>-? (0 | [1-9][0-9]*) (. [0-9]+)? ([eE] [+-]? [0-9]+)?\<close>.\<close>

definition digits_value :: "cu list \<Rightarrow> nat" where
  "digits_value ds = foldl (\<lambda>n d. 10 * n + (unat d - 0x30)) 0 ds"

definition scan_sign :: "cu list \<Rightarrow> bool \<times> cu list" where
  "scan_sign cs = (case cs of [] \<Rightarrow> (False, cs) | c # r \<Rightarrow> if c = 0x2D then (True, r) else (False, cs))"

definition scan_int :: "cu list \<Rightarrow> (cu list \<times> cu list) option" where
  "scan_int cs =
     (case cs of
        [] \<Rightarrow> None
      | c # r \<Rightarrow>
          if c = 0x30 then Some ([c], r)
          else if is_digit c then Some (c # takeWhile is_digit r, dropWhile is_digit r)
          else None)"

definition scan_frac :: "cu list \<Rightarrow> cu list \<times> cu list" where
  "scan_frac cs =
     (case cs of
        [] \<Rightarrow> ([], cs)
      | c # r \<Rightarrow>
          if c = 0x2E \<and> takeWhile is_digit r \<noteq> []
          then (takeWhile is_digit r, dropWhile is_digit r)
          else ([], cs))"

definition scan_exp :: "cu list \<Rightarrow> int \<times> cu list" where
  "scan_exp cs =
     (case cs of
        [] \<Rightarrow> (0, cs)
      | c # r \<Rightarrow>
          if c = 0x65 \<or> c = 0x45 then
            (let (sg, r') =
                   (case r of
                      [] \<Rightarrow> (1, r)
                    | s # r2 \<Rightarrow>
                        if s = 0x2B then (1, r2)
                        else if s = 0x2D then (- 1, r2)
                        else (1, r))
             in if takeWhile is_digit r' = [] then (0, cs)
                else (sg * int (digits_value (takeWhile is_digit r')), dropWhile is_digit r'))
          else (0, cs))"

definition scan_number :: "cu list \<Rightarrow> (jsnum \<times> cu list) option" where
  "scan_number cs =
     (let (neg, cs1) = scan_sign cs
      in case scan_int cs1 of
           None \<Rightarrow> None
         | Some (ip, cs2) \<Rightarrow>
             (let (fp, cs3) = scan_frac cs2;
                  (ex, cs4) = scan_exp cs3
              in Some (number_value neg (digits_value (ip @ fp)) (ex - int (length fp)), cs4)))"

text \<open>
  \<open>lex\<close> turns the text into tokens; \<open>None\<close> is a syntax error.  White space
  is tab, line feed, carriage return and space.
\<close>

definition cons_token :: "token \<Rightarrow> token list option \<Rightarrow> token list option" where
  "cons_token t r = map_option ((#) t) r"

lemma scan_string_length: "scan_string cs = Some (s, r) \<Longrightarrow> length r < Suc (length cs)"
proof (induction cs arbitrary: s r rule: scan_string.induct)
  case 1
  then show ?case by simp
next
  case (2 c cs)
  show ?case
    using "2.prems" "2.IH"
    by (fastforce simp: less_Suc_eq_le split: if_splits list.splits option.splits)
qed

lemma dropWhile_length_less: "length (dropWhile P xs) < Suc (length xs)"
  by (simp add: length_dropWhile_le less_Suc_eq_le)

lemma scan_sign_length: "scan_sign cs = (neg, r) \<Longrightarrow> length r \<le> length cs"
  by (auto simp: scan_sign_def split: list.splits if_splits)

lemma scan_int_length: "scan_int cs = Some (ip, r) \<Longrightarrow> length r < length cs"
  by (auto simp: scan_int_def dropWhile_length_less split: list.splits if_splits)

lemma scan_frac_length: "scan_frac cs = (fp, r) \<Longrightarrow> length r \<le> length cs"
  by (auto simp: scan_frac_def length_dropWhile_le le_SucI split: list.splits if_splits)

lemma dropWhile_length_Suc:
  "length (dropWhile P xs) \<le> Suc (length xs)"
  "length (dropWhile P xs) \<le> Suc (Suc (length xs))"
  using length_dropWhile_le [of P xs] by simp_all

lemma scan_exp_length:
  assumes "scan_exp cs = (ex, r)"
  shows "length r \<le> length cs"
proof (cases cs)
  case Nil
  with assms show ?thesis by (simp add: scan_exp_def)
next
  case (Cons c t)
  from assms show ?thesis
    unfolding Cons scan_exp_def
    by (auto simp: Let_def dropWhile_length_Suc split: list.splits if_splits prod.splits)
qed

lemma scan_number_length: "scan_number (c # cs) = Some (n, r) \<Longrightarrow> length r < Suc (length cs)"
proof -
  assume a: "scan_number (c # cs) = Some (n, r)"
  obtain neg cs1 where s1: "scan_sign (c # cs) = (neg, cs1)" by (cases "scan_sign (c # cs)")
  with a obtain ip cs2 where s2: "scan_int cs1 = Some (ip, cs2)"
    by (auto simp: scan_number_def split: option.splits)
  obtain fp cs3 where s3: "scan_frac cs2 = (fp, cs3)" by (cases "scan_frac cs2")
  obtain ex cs4 where s4: "scan_exp cs3 = (ex, cs4)" by (cases "scan_exp cs3")
  from a s1 s2 s3 s4 have "r = cs4" by (simp add: scan_number_def)
  with scan_sign_length [OF s1] scan_int_length [OF s2] scan_frac_length [OF s3]
    scan_exp_length [OF s4]
  show ?thesis by simp
qed

function lex :: "cu list \<Rightarrow> token list option" where
  "lex [] = Some []"
| "lex (c # cs) =
     (if is_ws c then lex cs
      else if c = 0x7B then cons_token LBrace (lex cs)
      else if c = 0x7D then cons_token RBrace (lex cs)
      else if c = 0x5B then cons_token LBracket (lex cs)
      else if c = 0x5D then cons_token RBracket (lex cs)
      else if c = 0x3A then cons_token Colon (lex cs)
      else if c = 0x2C then cons_token Comma (lex cs)
      else if c = 0x22 then
        (case scan_string cs of
           None \<Rightarrow> None
         | Some (s, r) \<Rightarrow> cons_token (TString s) (lex r))
      else if c = 0x2D \<or> is_digit c then
        (case scan_number (c # cs) of
           None \<Rightarrow> None
         | Some (n, r) \<Rightarrow> cons_token (TNumber n) (lex r))
      else if take 4 (c # cs) = latin1 ''true'' then cons_token TTrue (lex (drop 3 cs))
      else if take 5 (c # cs) = latin1 ''false'' then cons_token TFalse (lex (drop 4 cs))
      else if take 4 (c # cs) = latin1 ''null'' then cons_token TNull (lex (drop 3 cs))
      else None)"
  by pat_completeness auto
termination
  by (relation "measure length") (auto dest: scan_string_length scan_number_length)

subsection \<open>Values\<close>

text \<open>
  An object is the list of its properties, in the order of the text (the
  engine's own enumeration order, which puts integer-like keys first, is not
  modelled: properties are only read by name).  A member whose key is already
  present replaces the value of that property, so the last duplicate wins.
\<close>

fun define_property :: "jsstring \<Rightarrow> jsvalue \<Rightarrow> (jsstring \<times> jsvalue) list \<Rightarrow> (jsstring \<times> jsvalue) list" where
  "define_property k v [] = [(k, v)]"
| "define_property k v ((k', v') # kvs) =
     (if k' = k then (k, v) # kvs else (k', v') # define_property k v kvs)"

definition object_of :: "(jsstring \<times> jsvalue) list \<Rightarrow> jsvalue" where
  "object_of kvs = JObject (foldl (\<lambda>ob (k, v). define_property k v ob) [] kvs)"

text \<open>
  Recursive descent over the tokens.  \<open>parse_elements\<close> reads the elements of a
  non-empty array up to its closing bracket, \<open>parse_members\<close> the members of a
  non-empty object up to its closing brace.  The tests \<open>length r' < length ts\<close>
  always succeed (lemma \<open>parse_consumes\<close> below); they are there for the
  termination of the definition.
\<close>

fun parse_value :: "token list \<Rightarrow> (jsvalue \<times> token list) option"
  and parse_elements :: "token list \<Rightarrow> (jsvalue list \<times> token list) option"
  and parse_members :: "token list \<Rightarrow> ((jsstring \<times> jsvalue) list \<times> token list) option"
where
  "parse_value [] = None"
| "parse_value (t # ts) =
     (case t of
        TString s \<Rightarrow> Some (JString s, ts)
      | TNumber n \<Rightarrow> Some (JNumber n, ts)
      | TTrue \<Rightarrow> Some (JBool True, ts)
      | TFalse \<Rightarrow> Some (JBool False, ts)
      | TNull \<Rightarrow> Some (JNull, ts)
      | LBracket \<Rightarrow>
          (case ts of
             RBracket # r \<Rightarrow> Some (JArray [], r)
           | _ \<Rightarrow> map_option (apfst JArray) (parse_elements ts))
      | LBrace \<Rightarrow>
          (case ts of
             RBrace # r \<Rightarrow> Some (JObject [], r)
           | _ \<Rightarrow> map_option (apfst object_of) (parse_members ts))
      | _ \<Rightarrow> None)"
| "parse_elements ts =
     (case parse_value ts of
        None \<Rightarrow> None
      | Some (v, r) \<Rightarrow>
          (case r of
             Comma # r' \<Rightarrow>
               if length r' < length ts
               then map_option (apfst ((#) v)) (parse_elements r')
               else None
           | RBracket # r' \<Rightarrow> Some ([v], r')
           | _ \<Rightarrow> None))"
| "parse_members ts =
     (case ts of
        TString k # Colon # ts' \<Rightarrow>
          (case parse_value ts' of
             None \<Rightarrow> None
           | Some (v, r) \<Rightarrow>
               (case r of
                  Comma # r' \<Rightarrow>
                    if length r' < length ts
                    then map_option (apfst ((#) (k, v))) (parse_members r')
                    else None
                | RBrace # r' \<Rightarrow> Some ([(k, v)], r')
                | _ \<Rightarrow> None))
      | _ \<Rightarrow> None)"

declare parse_elements.simps [simp del] parse_members.simps [simp del]

lemma parse_consumes:
  "parse_value ts = Some (v, r) \<Longrightarrow> length r < length ts"
  "parse_elements ts = Some (vs, r) \<Longrightarrow> length r < length ts"
  "parse_members ts = Some (kvs, r) \<Longrightarrow> length r < length ts"
proof (induction ts and ts and ts arbitrary: v r and vs r and kvs r
    rule: parse_value_parse_elements_parse_members.induct)
  case 1
  then show ?case by simp
next
  case (2 t ts)
  have a: "length r < length ts"
    if "t = LBracket" "parse_elements ts = Some (vs, r)" "\<forall>r'. ts \<noteq> RBracket # r'" for vs
  proof (cases ts)
    case Nil
    with that "2.IH" show ?thesis by auto
  next
    case (Cons x xs)
    with that "2.IH" show ?thesis by (cases x) auto
  qed
  have b: "length r < length ts"
    if "t = LBrace" "parse_members ts = Some (kvs, r)" "\<forall>r'. ts \<noteq> RBrace # r'" for kvs
  proof (cases ts)
    case Nil
    with that "2.IH" show ?thesis by auto
  next
    case (Cons x xs)
    with that "2.IH" show ?thesis by (cases x) auto
  qed
  from "2.prems" show ?case
    by (auto split: token.splits list.splits dest!: a b)
next
  case (3 ts)
  from "3.prems" obtain x r0 where pv: "parse_value ts = Some (x, r0)"
    by (subst (asm) parse_elements.simps) (auto split: option.splits)
  note len = "3.IH"(1) [OF pv]
  show ?case
  proof (cases r0)
    case Nil
    with "3.prems" pv show ?thesis
      by (subst (asm) parse_elements.simps) simp
  next
    case (Cons y ys)
    with "3.prems" pv len "3.IH"(2) [OF pv refl Cons] show ?thesis
      by (subst (asm) parse_elements.simps) (cases y; fastforce split: if_splits)
  qed
next
  case (4 ts)
  show ?case
  proof (cases ts)
    case Nil
    with "4.prems" show ?thesis
      by (subst (asm) parse_members.simps) simp
  next
    case c1: (Cons k1 ts1)
    show ?thesis
    proof (cases ts1)
      case Nil
      with c1 "4.prems" show ?thesis
        by (subst (asm) parse_members.simps) (simp split: token.splits)
    next
      case c2: (Cons k2 ts')
      from "4.prems" c1 c2 obtain k where k: "k1 = TString k" "k2 = Colon"
        by (subst (asm) parse_members.simps) (auto split: token.splits)
      from "4.prems" c1 c2 k obtain x r0 where pv: "parse_value ts' = Some (x, r0)"
        by (subst (asm) parse_members.simps) (auto split: option.splits)
      note len = "4.IH"(1) [OF c1 k(1) c2 k(2) pv]
      show ?thesis
      proof (cases r0)
        case Nil
        with "4.prems" c1 c2 k pv show ?thesis
          by (subst (asm) parse_members.simps) simp
      next
        case (Cons y ys)
        with "4.prems" c1 c2 k pv len "4.IH"(2) [OF c1 k(1) c2 k(2) pv refl Cons] show ?thesis
          by (subst (asm) parse_members.simps) (cases y; fastforce split: if_splits)
      qed
    qed
  qed
qed


lemma parse_elements_unguarded:
  "parse_elements ts =
     (case parse_value ts of
        None \<Rightarrow> None
      | Some (v, r) \<Rightarrow>
          (case r of
             Comma # r' \<Rightarrow> map_option (apfst ((#) v)) (parse_elements r')
           | RBracket # r' \<Rightarrow> Some ([v], r')
           | _ \<Rightarrow> None))"
  by (subst parse_elements.simps)
    (auto split: option.splits list.splits token.splits dest: parse_consumes(1))

lemma parse_members_unguarded:
  "parse_members ts =
     (case ts of
        TString k # Colon # ts' \<Rightarrow>
          (case parse_value ts' of
             None \<Rightarrow> None
           | Some (v, r) \<Rightarrow>
               (case r of
                  Comma # r' \<Rightarrow> map_option (apfst ((#) (k, v))) (parse_members r')
                | RBrace # r' \<Rightarrow> Some ([(k, v)], r')
                | _ \<Rightarrow> None))
      | _ \<Rightarrow> None)"
  by (subst parse_members.simps)
    (auto split: option.splits list.splits token.splits dest: parse_consumes(1))

text \<open>
  \<^verbatim>\<open>JSON.parse(text)\<close>: the value of the text, or \<open>None\<close> where
  \<^verbatim>\<open>JSON.parse\<close> throws a \<^verbatim>\<open>SyntaxError\<close>.  The whole text must be one value.
\<close>

definition JSON_parse :: "jsstring \<Rightarrow> jsvalue option" where
  "JSON_parse text =
     (case lex text of
        None \<Rightarrow> None
      | Some ts \<Rightarrow>
          (case parse_value ts of
             Some (v, []) \<Rightarrow> Some v
           | _ \<Rightarrow> None))"

section \<open>The inference client\<close>

text \<open>
  \<^verbatim>\<open>src/services/geminiService.ts\<close>.  The remote model is outside the program:
  \<^verbatim>\<open>ai.models.generateContent\<close> is a parameter of the model, a function from the
  request to the rejection reason of the call or to its response.  Of the
  response the program reads \<^verbatim>\<open>response.text\<close> only, a string or
  \<^verbatim>\<open>undefined\<close>.
\<close>

datatype schema_type = STRING | NUMBER | OBJECT

record request =
  model :: jsstring
  prompt_text :: jsstring
  mimeType :: jsstring
  image_data :: "jsstring option"
  responseMimeType :: jsstring
  schema_type :: schema_type
  schema_properties :: "(jsstring \<times> schema_type) list"
  schema_required :: "jsstring list"

record response =
  response_text :: "jsstring option"

type_synonym remote = "request \<Rightarrow> js_exn + response"

text \<open>The template literal \<^verbatim>\<open>prompt\<close>: a line feed, nine indented lines, two spaces.\<close>

definition prompt_lines :: "string list" where
  "prompt_lines =
     [''    Tu es un expert du jeu X2 Blocks. '',
      ''    Analyse cette capture d'' @ [CHR 0x27, CHR 0xE9] @ ''cran du jeu.'',
      ''    Identifie le bloc actuel en bas de l'' @ [CHR 0x27, CHR 0xE9]
        @ ''cran et la grille de blocs au-dessus.'',
      ''    D'' @ [CHR 0xE9] @ ''termine le meilleur coup (la meilleure colonne o'' @ [CHR 0xF9]
        @ '' l'' @ [CHR 0xE2] @ ''cher le bloc) pour maximiser les fusions et le score.'',
      ''    '',
      ''    R'' @ [CHR 0xE9] @ ''ponds au format JSON avec les champs suivants :'',
      ''    - explanation: une courte explication en fran'' @ [CHR 0xE7]
        @ ''ais de pourquoi c'est le meilleur coup.'',
      ''    - column: le num'' @ [CHR 0xE9] @ ''ro de la colonne (de 1 '' @ [CHR 0xE0] @ '' 5, g''
        @ [CHR 0xE9] @ ''n'' @ [CHR 0xE9] @ ''ralement X2 Blocks a 5 colonnes).'',
      ''    - confidence: ton niveau de confiance de 0 '' @ [CHR 0xE0] @ '' 1.'']"

definition prompt :: jsstring where
  "prompt = latin1 (CHR 0x0A # concat (map (\<lambda>l. l @ [CHR 0x0A]) prompt_lines) @ ''  '')"

text \<open>
  \<^verbatim>\<open>s.split(",")\<close> for a one-character separator, and the indexing of an
  array, which gives \<^verbatim>\<open>undefined\<close> (\<open>None\<close>) out of range.
\<close>

fun split_on :: "cu \<Rightarrow> jsstring \<Rightarrow> jsstring list" where
  "split_on sep [] = [[]]"
| "split_on sep (c # cs) =
     (if c = sep then [] # split_on sep cs
      else case split_on sep cs of
             [] \<Rightarrow> [[c]]
           | p # ps \<Rightarrow> (c # p) # ps)"

definition at_index :: "'a list \<Rightarrow> nat \<Rightarrow> 'a option" where
  "at_index xs i = (if i < length xs then Some (xs ! i) else None)"

text \<open>The argument of \<^verbatim>\<open>generateContent\<close>; \<open>image_data\<close> is \<^verbatim>\<open>base64Image.split(",")[1]\<close>.\<close>

definition request_for :: "jsstring \<Rightarrow> request" where
  "request_for base64Image =
     \<lparr> model = latin1 ''gemini-3-flash-preview'',
       prompt_text = prompt,
       mimeType = latin1 ''image/png'',
       image_data = at_index (split_on 0x2C base64Image) 1,
       responseMimeType = latin1 ''application/json'',
       schema_type = OBJECT,
       schema_properties =
         [(latin1 ''explanation'', STRING), (latin1 ''column'', NUMBER),
          (latin1 ''confidence'', NUMBER)],
       schema_required = [latin1 ''explanation'', latin1 ''column'', latin1 ''confidence''] \<rparr>"

text \<open>\<^verbatim>\<open>a || b\<close> on an optional string: \<^verbatim>\<open>undefined\<close> and \<^verbatim>\<open>""\<close> are falsy.\<close>

definition or_else :: "jsstring option \<Rightarrow> jsstring \<Rightarrow> jsstring" where
  "or_else a b = (case a of None \<Rightarrow> b | Some s \<Rightarrow> if s = [] then b else s)"

definition parse_failed_message :: jsstring where
  "parse_failed_message = latin1 ''L'IA n'a pas pu analyser l'image correctement.''"

section \<open>The application\<close>

text \<open>
  \<^verbatim>\<open>src/App.tsx\<close>.  The record \<open>world\<close> holds the five \<^verbatim>\<open>useState\<close> cells of the
  component (\<open>screenshot\<close>, \<open>suggestion\<close>, \<open>loading\<close>, \<open>error\<close>, \<open>showResult\<close>;
  \<^verbatim>\<open>null\<close> is \<open>None\<close>, and \<open>JNull\<close> for the suggestion) and what the handlers do
  outside them: the hidden video and canvas elements they write, the calls of
  \<^verbatim>\<open>getDisplayMedia\<close>, the requests sent to the remote model, the calls of
  \<^verbatim>\<open>confetti\<close> and the console.  Every handler takes the world and returns it
  updated.
\<close>

datatype ready_state = Live | Ended

text \<open>
  A track of the capture stream.  \<open>stop_calls\<close> counts the calls of
  \<^verbatim>\<open>track.stop()\<close>; \<open>stream.getTracks()\<close> is the list of the stream's tracks.
\<close>

record track =
  readyState :: ready_state
  stop_calls :: nat

type_synonym stream = "track list"

definition stop :: "track \<Rightarrow> track" where
  "stop t = t\<lparr>readyState := Ended, stop_calls := stop_calls t + 1\<rparr>"

text \<open>
  The two \<^verbatim>\<open>console.error\<close> calls of the source: the error caught by
  \<open>startCapture\<close>, and the parse failure caught by \<open>analyzeGameScreenshot\<close>.
\<close>

datatype log_entry = Error_starting_capture js_exn | Failed_to_parse_response

record world =
  screenshot :: "jsstring option"
  suggestion :: jsvalue
  loading :: bool
  error :: "jsstring option"
  showResult :: bool
  video_playing :: bool
  canvas_width :: nat
  canvas_height :: nat
  getDisplayMedia_calls :: nat
  requests :: "request list"
  confetti_calls :: nat
  console_errors :: "log_entry list"

definition initial_world :: world where
  "initial_world =
     \<lparr> screenshot = None, suggestion = JNull, loading = False, error = None,
       showResult = False, video_playing = False, canvas_width = 300, canvas_height = 150,
       getDisplayMedia_calls = 0, requests = [], confetti_calls = 0, console_errors = [] \<rparr>"

text \<open>
  \<open>analyzeGameScreenshot\<close> sends one request.  The \<^verbatim>\<open>await\<close> is outside the
  \<^verbatim>\<open>try\<close>, so a rejection of the call is the rejection of the function.  Inside
  the \<^verbatim>\<open>try\<close>, \<^verbatim>\<open>JSON.parse(response.text || "{}")\<close> either gives the result,
  returned as it is (the cast to \<^verbatim>\<open>MoveSuggestion\<close> checks nothing), or throws, and
  the \<^verbatim>\<open>catch\<close> logs and throws the \<^verbatim>\<open>Error\<close> of the source.
\<close>

definition analyzeGameScreenshot :: "remote \<Rightarrow> jsstring \<Rightarrow> world \<Rightarrow> (js_exn + jsvalue) \<times> world" where
  "analyzeGameScreenshot generateContent base64Image w =
     (let req = request_for base64Image;
          w1 = w\<lparr>requests := requests w @ [req]\<rparr>
      in case generateContent req of
           Inl err \<Rightarrow> (Inl err, w1)
         | Inr response \<Rightarrow>
             (case JSON_parse (or_else (response_text response) (latin1 ''{}'')) of
                Some result \<Rightarrow> (Inr result, w1)
              | None \<Rightarrow>
                  (Inl (Error parse_failed_message),
                   w1\<lparr>console_errors := console_errors w1 @ [Failed_to_parse_response]\<rparr>)))"

text \<open>
  The elements behind \<^verbatim>\<open>videoRef\<close> and \<^verbatim>\<open>canvasRef\<close>, as far as the program
  reads them: the size of the video frame, whether \<^verbatim>\<open>getContext('2d')\<close> gives a
  context, and the data URI that \<^verbatim>\<open>toDataURL('image/png')\<close> returns once the
  frame is drawn.  A ref whose element is not mounted is \<open>None\<close>.
\<close>

record video =
  videoWidth :: nat
  videoHeight :: nat

record canvas =
  context2d :: bool
  toDataURL :: jsstring

record dom =
  videoRef :: "video option"
  canvasRef :: "canvas option"

text \<open>
  \<^verbatim>\<open>navigator\<close>.  A \<^verbatim>\<open>getDisplayMedia\<close> function that is present is given by
  what its promise does when it is called with the constraints of the source:
  it rejects (the user cancels the prompt, or another failure) or resolves to a
  stream.
\<close>

record media_devices =
  getDisplayMedia :: "(js_exn + stream) option"

record navigator =
  mediaDevices :: "media_devices option"
  nav_getDisplayMedia :: "(js_exn + stream) option"

definition unsupported_message :: jsstring where
  "unsupported_message =
     latin1 (''La capture d'' @ [CHR 0x27, CHR 0xE9] @ ''cran n'est pas support'' @ [CHR 0xE9]
       @ ''e par ce navigateur ou dans ce contexte (Iframe/Mobile).'')"

definition cancelled_message :: jsstring where
  "cancelled_message = latin1 (''Capture annul'' @ [CHR 0xE9] @ ''e.'')"

definition analysis_error_message :: jsstring where
  "analysis_error_message = latin1 ''Erreur d'analyse.''"

text \<open>The number literal \<^verbatim>\<open>0.8\<close> of \<open>analyzeImage\<close>.\<close>

definition confetti_threshold :: jsnum where
  "confetti_threshold = number_value False 8 (- 1)"

type_synonym coercion = "jsvalue \<Rightarrow> js_exn + jsnum"

text \<open>
  The \<^verbatim>\<open>catch\<close> of \<open>analyzeImage\<close>: \<^verbatim>\<open>setError(err.message || "Erreur d'analyse.")\<close>.
  Where reading \<^verbatim>\<open>err.message\<close> throws, the \<^verbatim>\<open>catch\<close> ends there and sets no
  error; the \<^verbatim>\<open>finally\<close> runs all the same.
\<close>

definition catch_analysis :: "js_exn \<Rightarrow> world \<Rightarrow> world" where
  "catch_analysis err w =
     (case message err of
        Inl thrown \<Rightarrow> w
      | Inr m \<Rightarrow> w\<lparr>error := Some (or_else m analysis_error_message)\<rparr>)"

text \<open>
  \<open>analyzeImage\<close>, from the call to the end of its \<^verbatim>\<open>finally\<close>.  The handler
  suspends at the \<^verbatim>\<open>await\<close>; the model runs it in one piece, so it says nothing
  of other handlers running in between.
\<close>

definition analyzeImage :: "remote \<Rightarrow> coercion \<Rightarrow> jsstring \<Rightarrow> world \<Rightarrow> world" where
  "analyzeImage generateContent coerce dataUrl w =
     (let w' =
        (case analyzeGameScreenshot generateContent dataUrl w of
           (Inl err, w1) \<Rightarrow> catch_analysis err w1
         | (Inr result, w1) \<Rightarrow>
             (let w2 = w1\<lparr>suggestion := result, showResult := True\<rparr>
              in case get_property result (latin1 ''confidence'') of
                   Inl err \<Rightarrow> catch_analysis err w2
                 | Inr c \<Rightarrow>
                     (case greater_than coerce c confetti_threshold of
                        Inl err \<Rightarrow> catch_analysis err w2
                      | Inr b \<Rightarrow>
                          if b then w2\<lparr>confetti_calls := confetti_calls w2 + 1\<rparr> else w2)))
      in w'\<lparr>loading := False\<rparr>)"

text \<open>
  \<open>takeScreenshot\<close> returns the world and the stream, whose tracks it may have
  stopped.  Everything, the stopping of the tracks included, is inside
  \<^verbatim>\<open>if (videoRef.current && canvasRef.current)\<close>.
\<close>

definition takeScreenshot :: "remote \<Rightarrow> coercion \<Rightarrow> dom \<Rightarrow> stream \<Rightarrow> world \<Rightarrow> world \<times> stream" where
  "takeScreenshot generateContent coerce d stream w =
     (case (videoRef d, canvasRef d) of
        (Some video, Some canvas) \<Rightarrow>
          (let w1 = w\<lparr>canvas_width := videoWidth video, canvas_height := videoHeight video\<rparr>;
               w2 = (if context2d canvas
                     then analyzeImage generateContent coerce (toDataURL canvas)
                            (w1\<lparr>screenshot := Some (toDataURL canvas)\<rparr>)
                     else w1)
           in (w2, map stop stream))
      | _ \<Rightarrow> (w, stream))"

text \<open>
  How \<open>startCapture\<close> ends: it \<open>Failed\<close> before a stream was acquired; or it
  acquired the stream and found no video element, so that nothing is scheduled
  (\<open>Unattached\<close>); or it attached the stream to the video element and
  \<open>Scheduled\<close> \<open>takeScreenshot\<close> for 500 ms after the metadata of the video
  are loaded.
\<close>

datatype capture = Failed | Unattached stream | Scheduled stream

text \<open>The \<^verbatim>\<open>catch\<close> of \<open>startCapture\<close>.\<close>

definition catch_capture :: "js_exn \<Rightarrow> world \<Rightarrow> world" where
  "catch_capture err w =
     w\<lparr>console_errors := console_errors w @ [Error_starting_capture err],
       error := Some cancelled_message,
       loading := False\<rparr>"

text \<open>\<^verbatim>\<open>mediaDevices?.getDisplayMedia\<close>.\<close>

definition mediaDevices_getDisplayMedia :: "navigator \<Rightarrow> (js_exn + stream) option" where
  "mediaDevices_getDisplayMedia nav =
     (case mediaDevices nav of None \<Rightarrow> None | Some m \<Rightarrow> getDisplayMedia m)"

text \<open>
  \<open>startCapture\<close>.  The \<^verbatim>\<open>throw\<close> of the capability test is inside the
  \<^verbatim>\<open>try\<close>, as is the \<^verbatim>\<open>await\<close> of \<^verbatim>\<open>getDisplayMedia\<close>.  The function called is
  \<^verbatim>\<open>mediaDevices?.getDisplayMedia || nav.getDisplayMedia\<close>; after the test one of
  the two is present, and calling \<^verbatim>\<open>undefined\<close> would be a \<^verbatim>\<open>TypeError\<close>.
\<close>

definition startCapture :: "navigator \<Rightarrow> dom \<Rightarrow> world \<Rightarrow> world \<times> capture" where
  "startCapture nav d w =
     (let w1 = w\<lparr>error := None\<rparr>
      in if mediaDevices_getDisplayMedia nav = None \<and> nav_getDisplayMedia nav = None
         then (catch_capture (Error unsupported_message) w1, Failed)
         else
           (let w2 = w1\<lparr>loading := True\<rparr>
            in case (case mediaDevices_getDisplayMedia nav of
                       Some f \<Rightarrow> Some f
                     | None \<Rightarrow> nav_getDisplayMedia nav) of
                 None \<Rightarrow>
                   (catch_capture (TypeError (latin1 ''getDisplayMedia is not a function'')) w2,
                    Failed)
               | Some outcome \<Rightarrow>
                   (let w3 = w2\<lparr>getDisplayMedia_calls := getDisplayMedia_calls w2 + 1\<rparr>
                    in case outcome of
                         Inl err \<Rightarrow> (catch_capture err w3, Failed)
                       | Inr stream \<Rightarrow>
                           (case videoRef d of
                              None \<Rightarrow> (w3, Unattached stream)
                            | Some video \<Rightarrow> (w3\<lparr>video_playing := True\<rparr>, Scheduled stream)))))"

definition closeResult :: "world \<Rightarrow> world" where
  "closeResult w = w\<lparr>showResult := False, suggestion := JNull, screenshot := None\<rparr>"

text \<open>
  One run of the workflow: the button is pressed with the elements \<open>d\<close>, and,
  where \<open>takeScreenshot\<close> was scheduled, the metadata are loaded and the timer
  fires with the elements \<open>d'\<close>.  The result holds the stream, if one was
  acquired, as the run leaves it.
\<close>

definition capture_workflow ::
  "remote \<Rightarrow> coercion \<Rightarrow> navigator \<Rightarrow> dom \<Rightarrow> dom \<Rightarrow> world \<Rightarrow> world \<times> stream option" where
  "capture_workflow generateContent coerce nav d d' w =
     (case startCapture nav d w of
        (w1, Failed) \<Rightarrow> (w1, None)
      | (w1, Unattached stream) \<Rightarrow> (w1, Some stream)
      | (w1, Scheduled stream) \<Rightarrow>
          (case takeScreenshot generateContent coerce d' stream w1 of
             (w2, stream') \<Rightarrow> (w2, Some stream')))"

section \<open>The suggestion the specification describes\<close>

text \<open>
  The interface \<^verbatim>\<open>MoveSuggestion\<close> of the source has a string \<open>explanation\<close>
  and numbers \<open>column\<close> and \<open>confidence\<close>; the specification adds that the column
  is a positive integer and the confidence lies in \<open>[0, 1]\<close>.  This predicate
  follows the specification; the program has no such test.
\<close>

definition is_positive_integer :: "jsnum \<Rightarrow> bool" where
  "is_positive_integer n = (case n of Finite q \<Rightarrow> 0 < q \<and> of_int \<lfloor>q\<rfloor> = q | _ \<Rightarrow> False)"

definition in_unit_interval :: "jsnum \<Rightarrow> bool" where
  "in_unit_interval n = (case n of Finite q \<Rightarrow> 0 \<le> q \<and> q \<le> 1 | NegZero \<Rightarrow> True | _ \<Rightarrow> False)"

definition own_property :: "jsvalue \<Rightarrow> jsstring \<Rightarrow> jsvalue option" where
  "own_property v name = (case v of JObject kvs \<Rightarrow> map_of kvs name | _ \<Rightarrow> None)"

definition valid_MoveSuggestion :: "jsvalue \<Rightarrow> bool" where
  "valid_MoveSuggestion v =
     (case own_property v (latin1 ''explanation'') of
        Some (JString e) \<Rightarrow>
          (case own_property v (latin1 ''column'') of
             Some (JNumber c) \<Rightarrow>
               (case own_property v (latin1 ''confidence'') of
                  Some (JNumber p) \<Rightarrow> is_positive_integer c \<and> in_unit_interval p
                | _ \<Rightarrow> False)
           | _ \<Rightarrow> False)
      | _ \<Rightarrow> False)"

section \<open>Concrete inputs\<close>

text \<open>A remote model that answers every request with the same text, or with none.\<close>

definition remote_returning :: "jsstring option \<Rightarrow> remote" where
  "remote_returning t = (\<lambda>req. Inr \<lparr> response_text = t \<rparr>)"

definition no_coercion :: coercion where
  "no_coercion = (\<lambda>v. Inr NaN)"

definition sample_image :: jsstring where
  "sample_image = latin1 ''data:image/png;base64,iVBORw0KGgo=''"

definition sample_text :: jsstring where
  \<open>sample_text = latin1 ''{"explanation":"col 3 best","column":3,"confidence":0.92}''\<close>

definition sample_suggestion :: jsvalue where
  "sample_suggestion =
     JObject
       [(latin1 ''explanation'', JString (latin1 ''col 3 best'')),
        (latin1 ''column'', JNumber (Finite 3)),
        (latin1 ''confidence'', JNumber (Finite (8286623314361713 / 9007199254740992)))]"

definition partial_text :: jsstring where
  \<open>partial_text = latin1 ''{"column":-3.5,"confidence":7}''\<close>

definition partial_object :: jsvalue where
  "partial_object =
     JObject [(latin1 ''column'', JNumber (Finite (- (7 / 2)))),
              (latin1 ''confidence'', JNumber (Finite 7))]"

definition unsupported_navigator :: navigator where
  "unsupported_navigator = \<lparr> mediaDevices = None, nav_getDisplayMedia = None \<rparr>"

definition navigator_answering :: "js_exn + stream \<Rightarrow> navigator" where
  "navigator_answering outcome =
     \<lparr> mediaDevices = Some \<lparr> getDisplayMedia = Some outcome \<rparr>, nav_getDisplayMedia = None \<rparr>"

definition permission_denied :: js_exn where
  "permission_denied = Rejected (Some (latin1 ''Permission denied''))"

definition live_track :: track where
  "live_track = \<lparr> readyState = Live, stop_calls = 0 \<rparr>"

definition mounted_dom :: dom where
  "mounted_dom =
     \<lparr> videoRef = Some \<lparr> videoWidth = 640, videoHeight = 480 \<rparr>,
       canvasRef = Some \<lparr> context2d = True, toDataURL = sample_image \<rparr> \<rparr>"

text \<open>
  The video and the canvas are rendered together, so the two refs are set
  together and, when the component unmounts, cleared together.
\<close>

definition unmounted_dom :: dom where
  "unmounted_dom = \<lparr> videoRef = None, canvasRef = None \<rparr>"

section \<open>Evaluation on concrete inputs\<close>

lemmas number_defs =
  number_value_def nearest_double_def floor_log2_def round_half_even_def scale_def
  bit_length.simps Let_def

lemmas scan_defs =
  scan_number_def scan_sign_def scan_int_def scan_frac_def scan_exp_def digits_value_def
  is_digit_def is_ws_def hex4_def hex_value_def unescape_def cons_token_def

lemma number_3: "number_value False 3 0 = Finite 3"
  by (simp add: number_defs)

text \<open>The double of \<^verbatim>\<open>0.92\<close> is \<open>8286623314361713 / 2 ^ 53\<close>.\<close>

lemma number_0_92: "number_value False 92 (- 2) = Finite (8286623314361713 / 9007199254740992)"
  by (simp add: number_defs)

text \<open>The double of \<^verbatim>\<open>0.8\<close> is \<open>3602879701896397 / 2 ^ 52\<close>, a little above \<open>4 / 5\<close>.\<close>

lemma confetti_threshold_value: "confetti_threshold = Finite (3602879701896397 / 4503599627370496)"
  by (simp add: confetti_threshold_def number_defs)

lemma number_7: "number_value False 7 0 = Finite 7"
  by (simp add: number_defs)

lemma number_minus_3_5: "number_value True 35 (- 1) = Finite (- (7 / 2))"
  by (simp add: number_defs)

text \<open>Ties go to the even significand; \<^verbatim>\<open>1e23\<close> is not a double.\<close>

lemma number_examples:
  "number_value False 1 (- 1) = Finite (3602879701896397 / 36028797018963968)"
  "number_value False 9007199254740993 0 = Finite 9007199254740992"
  "number_value False 1 23 = Finite 99999999999999991611392"
  "number_value True 0 0 = NegZero"
  by (simp_all add: number_defs)

lemma lex_sample:
  "lex sample_text =
     Some [LBrace, TString (latin1 ''explanation''), Colon, TString (latin1 ''col 3 best''), Comma,
       TString (latin1 ''column''), Colon, TNumber (Finite 3), Comma,
       TString (latin1 ''confidence''), Colon,
       TNumber (Finite (8286623314361713 / 9007199254740992)), RBrace]"
  by (simp add: sample_text_def latin1_def scan_defs number_3 number_0_92)

lemma parse_sample: "JSON_parse sample_text = Some sample_suggestion"
  by (simp add: JSON_parse_def lex_sample object_of_def sample_suggestion_def
      parse_elements.simps parse_members.simps) (simp add: latin1_def)

lemma parse_partial: "JSON_parse partial_text = Some partial_object"
  by (simp add: JSON_parse_def partial_text_def partial_object_def latin1_def scan_defs
      number_7 number_minus_3_5 object_of_def parse_elements.simps parse_members.simps)

lemma parse_empty_object: "JSON_parse (latin1 ''{}'') = Some (JObject [])"
  by (simp add: JSON_parse_def latin1_def scan_defs)

lemma parse_empty_text: "JSON_parse [] = None"
  by (simp add: JSON_parse_def)

lemma parse_not_json: "JSON_parse (latin1 ''not json'') = None"
  by (simp add: JSON_parse_def latin1_def scan_defs)

lemma parse_empty_array: "JSON_parse (latin1 ''[]'') = Some (JArray [])"
  by (simp add: JSON_parse_def latin1_def scan_defs)

lemma parse_null: "JSON_parse (latin1 ''null'') = Some JNull"
  by (simp add: JSON_parse_def latin1_def scan_defs)

text \<open>What the parser takes and what it refuses.\<close>

lemma JSON_parse_accepts:
  \<open>JSON_parse (latin1 '' [true, false , null] '') = Some (JArray [JBool True, JBool False, JNull])\<close>
  \<open>JSON_parse (latin1 ''{"a":{"b":[]}}'') =
     Some (JObject [(latin1 ''a'', JObject [(latin1 ''b'', JArray [])])])\<close>
  \<open>JSON_parse (latin1 ''{"a":true,"b":null,"a":false}'') =
     Some (JObject [(latin1 ''a'', JBool False), (latin1 ''b'', JNull)])\<close>
  \<open>JSON_parse (latin1 ''"a'' @ [0x5C] @ latin1 ''u00e9'' @ [0x5C] @ latin1 ''n"'') =
     Some (JString [0x61, 0xE9, 0x0A])\<close>
  \<open>JSON_parse (latin1 ''-0'') = Some (JNumber NegZero)\<close>
  by (simp_all add: JSON_parse_def latin1_def scan_defs object_of_def number_defs
      parse_elements.simps parse_members.simps)

lemma JSON_parse_rejects:
  \<open>JSON_parse (latin1 ''[true,]'') = None\<close>
  \<open>JSON_parse (latin1 ''{"a":true,}'') = None\<close>
  \<open>JSON_parse (latin1 ''{a:true}'') = None\<close>
  \<open>JSON_parse (latin1 ''tru'') = None\<close>
  \<open>JSON_parse (latin1 ''true false'') = None\<close>
  \<open>JSON_parse (latin1 ''"abc'') = None\<close>
  \<open>JSON_parse (latin1 ''01'') = None\<close>
  \<open>JSON_parse (latin1 ''1.'') = None\<close>
  \<open>JSON_parse (latin1 ''-'') = None\<close>
  \<open>JSON_parse (latin1 '' '') = None\<close>
  \<open>JSON_parse (latin1 ''"a'' @ [0x0A] @ latin1 ''"'') = None\<close>
  by (simp_all add: JSON_parse_def latin1_def scan_defs object_of_def number_defs
      parse_elements.simps parse_members.simps)

lemma texts_nonempty:
  "sample_text \<noteq> []" "partial_text \<noteq> []" "latin1 ''not json'' \<noteq> []"
  "latin1 ''[]'' \<noteq> []" "latin1 ''null'' \<noteq> []"
  by (simp_all add: sample_text_def partial_text_def latin1_def)

lemma data_uri_payload:
  "at_index (split_on 0x2C sample_image) 1 = Some (latin1 ''iVBORw0KGgo='')"
  by (simp add: sample_image_def latin1_def at_index_def)

lemma sample_suggestion_valid: "valid_MoveSuggestion sample_suggestion"
  by (simp add: valid_MoveSuggestion_def own_property_def sample_suggestion_def latin1_def
      is_positive_integer_def in_unit_interval_def)

lemma partial_object_properties:
  "\<not> valid_MoveSuggestion partial_object"
  "own_property partial_object (latin1 ''explanation'') = None"
  "own_property partial_object (latin1 ''column'') = Some (JNumber (Finite (- (7 / 2))))"
  "own_property partial_object (latin1 ''confidence'') = Some (JNumber (Finite 7))"
  by (simp_all add: valid_MoveSuggestion_def own_property_def partial_object_def latin1_def)

lemma sample_confidence:
  "get_property sample_suggestion (latin1 ''confidence'') =
     Inr (JNumber (Finite (8286623314361713 / 9007199254740992)))"
  by (simp add: sample_suggestion_def latin1_def)

lemma sample_above_threshold:
  "less_than confetti_threshold (Finite (8286623314361713 / 9007199254740992)) = Some True"
  by (simp add: confetti_threshold_value)

lemma messages_differ: "cancelled_message \<noteq> unsupported_message"
  by (simp add: cancelled_message_def unsupported_message_def latin1_def)

lemma cancelled_message_nonempty: "cancelled_message \<noteq> []"
  by (simp add: cancelled_message_def latin1_def)

lemma remote_returning_apply: "remote_returning t req = Inr \<lparr> response_text = t \<rparr>"
  by (simp add: remote_returning_def)

lemma unsupported_navigator_simps:
  "mediaDevices_getDisplayMedia unsupported_navigator = None"
  "nav_getDisplayMedia unsupported_navigator = None"
  by (simp_all add: unsupported_navigator_def mediaDevices_getDisplayMedia_def)

lemma navigator_answering_simps:
  "mediaDevices_getDisplayMedia (navigator_answering outcome) = Some outcome"
  "nav_getDisplayMedia (navigator_answering outcome) = None"
  by (simp_all add: navigator_answering_def mediaDevices_getDisplayMedia_def)

section \<open>What the handlers do\<close>

lemma or_else_simps:
  "or_else None d = d" "or_else (Some []) d = d" "t \<noteq> [] \<Longrightarrow> or_else (Some t) d = t"
  by (simp_all add: or_else_def)

lemma split_on_no_separator: "sep \<notin> set s \<Longrightarrow> split_on sep s = [s]"
  by (induction s) auto

lemma analyze_result:
  "fst (analyzeGameScreenshot generateContent img w) =
     (case generateContent (request_for img) of
        Inl err \<Rightarrow> Inl err
      | Inr response \<Rightarrow>
          (case JSON_parse (or_else (response_text response) (latin1 ''{}'')) of
             Some result \<Rightarrow> Inr result
           | None \<Rightarrow> Inl (Error parse_failed_message)))"
  by (simp add: analyzeGameScreenshot_def Let_def split: sum.splits option.splits)

lemma analyze_requests:
  "requests (snd (analyzeGameScreenshot generateContent img w)) = requests w @ [request_for img]"
  by (simp add: analyzeGameScreenshot_def Let_def split: sum.splits option.splits)

lemma analyze_confetti:
  "confetti_calls (snd (analyzeGameScreenshot generateContent img w)) = confetti_calls w"
  by (simp add: analyzeGameScreenshot_def Let_def split: sum.splits option.splits)

lemma analyzeImage_confetti:
  assumes "fst (analyzeGameScreenshot generateContent img w) = Inr v"
    and "get_property v (latin1 ''confidence'') = Inr (JNumber c)"
  shows "confetti_calls (analyzeImage generateContent coerce img w) =
           (if less_than confetti_threshold c = Some True then confetti_calls w + 1
            else confetti_calls w)"
proof -
  obtain r w1 where a: "analyzeGameScreenshot generateContent img w = (r, w1)"
    by (cases "analyzeGameScreenshot generateContent img w")
  with assms(1) have r: "r = Inr v" by simp
  from a have c: "confetti_calls w1 = confetti_calls w"
    using analyze_confetti [of generateContent img w] by simp
  show ?thesis
    by (auto simp: analyzeImage_def a r assms(2) greater_than_def c split: option.splits)
qed

text \<open>
  A rejected remote call: its message is shown, the fallback where it has none,
  and nothing where the rejection reason is \<^verbatim>\<open>null\<close> or \<^verbatim>\<open>undefined\<close>.  The loading
  flag is cleared in each case.
\<close>

lemma analyzeImage_rejected:
  assumes "generateContent (request_for img) = Inl err"
  shows "error (analyzeImage generateContent coerce img w) =
           (case message err of
              Inl thrown \<Rightarrow> error w
            | Inr m \<Rightarrow> Some (or_else m analysis_error_message))"
    and "loading (analyzeImage generateContent coerce img w) = False"
  using assms
  by (simp_all add: analyzeImage_def analyzeGameScreenshot_def catch_analysis_def Let_def
      split: sum.splits)

lemma startCapture_unsupported:
  assumes "mediaDevices_getDisplayMedia nav = None" and "nav_getDisplayMedia nav = None"
  shows "startCapture nav d w =
           (catch_capture (Error unsupported_message) (w\<lparr>error := None\<rparr>), Failed)"
  using assms by (simp add: startCapture_def)

lemma startCapture_rejected:
  assumes "mediaDevices_getDisplayMedia nav = Some (Inl e) \<or>
           mediaDevices_getDisplayMedia nav = None \<and> nav_getDisplayMedia nav = Some (Inl e)"
  shows "startCapture nav d w =
           (catch_capture e
              (w\<lparr>error := None, loading := True,
                 getDisplayMedia_calls := getDisplayMedia_calls w + 1\<rparr>), Failed)"
  using assms by (auto simp: startCapture_def)

lemma takeScreenshot_stream:
  "snd (takeScreenshot generateContent coerce d stream w) =
     (if videoRef d = None \<or> canvasRef d = None then stream else map stop stream)"
  by (auto simp: takeScreenshot_def Let_def split: option.splits)

lemma takeScreenshot_unmounted:
  "videoRef d = None \<or> canvasRef d = None \<Longrightarrow>
     takeScreenshot generateContent coerce d stream w = (w, stream)"
  by (auto simp: takeScreenshot_def split: option.splits)

lemma startCapture_stream:
  assumes "snd (startCapture nav d w) = Scheduled s \<or> snd (startCapture nav d w) = Unattached s"
  shows "mediaDevices_getDisplayMedia nav = Some (Inr s) \<or>
         mediaDevices_getDisplayMedia nav = None \<and> nav_getDisplayMedia nav = Some (Inr s)"
  using assms
  by (auto simp: startCapture_def Let_def split: if_splits option.splits sum.splits)

lemma capture_workflow_stream:
  "snd (startCapture nav d w) = Scheduled s \<Longrightarrow>
     snd (capture_workflow generateContent coerce nav d d' w) =
       Some (snd (takeScreenshot generateContent coerce d' s (fst (startCapture nav d w))))"
  "snd (startCapture nav d w) = Unattached s \<Longrightarrow>
     snd (capture_workflow generateContent coerce nav d d' w) = Some s"
  by (cases "startCapture nav d w"; simp add: capture_workflow_def case_prod_beta)+

lemma stop_effect: "readyState (stop t) = Ended" "stop_calls (stop t) = stop_calls t + 1"
  by (simp_all add: stop_def)

section \<open>The response of the remote model\<close>

text \<open>
  Claim C1, as amended.  When the remote call answers, a response text that is
  not empty and is not JSON makes \<open>analyzeGameScreenshot\<close> fail with the
  "analysis unparseable" error of the source, and no result is returned.  A
  text that is missing or empty is replaced by \<^verbatim>\<open>"{}"\<close> and gives the empty
  object, and a text that is JSON is returned as parsed, whatever its shape.
\<close>

theorem analyze_unparseable_response:
  assumes "generateContent (request_for img) = Inr resp"
  shows "(response_text resp = Some t \<and> t \<noteq> [] \<and> JSON_parse t = None \<longrightarrow>
            fst (analyzeGameScreenshot generateContent img w) = Inl (Error parse_failed_message)) \<and>
         (response_text resp = None \<or> response_text resp = Some [] \<longrightarrow>
            fst (analyzeGameScreenshot generateContent img w) = Inr (JObject [])) \<and>
         (response_text resp = Some t \<and> t \<noteq> [] \<and> JSON_parse t = Some v \<longrightarrow>
            fst (analyzeGameScreenshot generateContent img w) = Inr v)"
  using assms by (auto simp: analyze_result or_else_simps parse_empty_object)

theorem analyze_unparseable_response_witness:
  "remote_returning (Some (latin1 ''not json'')) (request_for sample_image)
     = Inr \<lparr> response_text = Some (latin1 ''not json'') \<rparr> \<and>
   latin1 ''not json'' \<noteq> [] \<and> JSON_parse (latin1 ''not json'') = None \<and>
   fst (analyzeGameScreenshot (remote_returning (Some (latin1 ''not json''))) sample_image
          initial_world) = Inl (Error parse_failed_message)"
proof -
  have r: "remote_returning (Some (latin1 ''not json'')) (request_for sample_image)
     = Inr \<lparr> response_text = Some (latin1 ''not json'') \<rparr>"
    by (rule remote_returning_apply)
  from analyze_unparseable_response
      [where generateContent = "remote_returning (Some (latin1 ''not json''))"
         and img = sample_image and t = "latin1 ''not json''" and w = initial_world, OF r]
    texts_nonempty(3) parse_not_json r
  show ?thesis by simp
qed

text \<open>
  The claim as the specification states it fails: with an empty text, with no
  text, and with the texts \<^verbatim>\<open>[]\<close> and \<^verbatim>\<open>null\<close>, which are JSON of another
  shape, the function returns a value and raises nothing.
\<close>

theorem missing_text_counterexample:
  "fst (analyzeGameScreenshot (remote_returning (Some [])) sample_image initial_world)
     = Inr (JObject []) \<and>
   fst (analyzeGameScreenshot (remote_returning None) sample_image initial_world)
     = Inr (JObject []) \<and>
   fst (analyzeGameScreenshot (remote_returning (Some (latin1 ''[]''))) sample_image initial_world)
     = Inr (JArray []) \<and>
   fst (analyzeGameScreenshot (remote_returning (Some (latin1 ''null''))) sample_image initial_world)
     = Inr JNull"
  by (simp add: analyze_result remote_returning_apply or_else_simps texts_nonempty
      parse_empty_object parse_empty_array parse_null)

text \<open>
  Claim C2, as amended.  \<open>analyzeGameScreenshot\<close> checks no field: whatever
  value \<^verbatim>\<open>JSON.parse\<close> gives for the response text (\<^verbatim>\<open>"{}"\<close> standing for a
  missing or empty text) is returned as it is.  It fails with the analysis-parse
  error when the text is not JSON, and with the error of the remote call when
  the call fails; there is no other outcome.  So the result is a suggestion
  with its three fields, a positive integer column and a confidence in
  \<open>[0, 1]\<close> when the response text is one, and not otherwise.
\<close>

theorem analyze_returns_parsed_response:
  "(generateContent (request_for img) = Inr resp \<and>
    JSON_parse (or_else (response_text resp) (latin1 ''{}'')) = Some v' \<longrightarrow>
      fst (analyzeGameScreenshot generateContent img w) = Inr v') \<and>
   (generateContent (request_for img) = Inr resp \<and>
    JSON_parse (or_else (response_text resp) (latin1 ''{}'')) = None \<longrightarrow>
      fst (analyzeGameScreenshot generateContent img w) = Inl (Error parse_failed_message)) \<and>
   (generateContent (request_for img) = Inl e' \<longrightarrow>
      fst (analyzeGameScreenshot generateContent img w) = Inl e') \<and>
   (fst (analyzeGameScreenshot generateContent img w) = Inr v \<longrightarrow>
      (\<exists>resp. generateContent (request_for img) = Inr resp \<and>
         JSON_parse (or_else (response_text resp) (latin1 ''{}'')) = Some v)) \<and>
   (fst (analyzeGameScreenshot generateContent img w) = Inl e \<longrightarrow>
      e = Error parse_failed_message \<or> generateContent (request_for img) = Inl e)"
  by (auto simp: analyze_result split: sum.splits option.splits)

theorem analyze_returns_parsed_response_witness:
  "remote_returning (Some sample_text) (request_for sample_image)
     = Inr \<lparr> response_text = Some sample_text \<rparr> \<and>
   JSON_parse (or_else (response_text \<lparr> response_text = Some sample_text \<rparr>) (latin1 ''{}''))
     = Some sample_suggestion \<and>
   valid_MoveSuggestion sample_suggestion \<and>
   fst (analyzeGameScreenshot (remote_returning (Some sample_text)) sample_image initial_world)
     = Inr sample_suggestion"
proof -
  have r: "remote_returning (Some sample_text) (request_for sample_image)
     = Inr \<lparr> response_text = Some sample_text \<rparr>"
    by (rule remote_returning_apply)
  have p: "JSON_parse (or_else (response_text \<lparr> response_text = Some sample_text \<rparr>)
             (latin1 ''{}'')) = Some sample_suggestion"
    by (simp add: or_else_simps texts_nonempty parse_sample)
  from analyze_returns_parsed_response
      [where generateContent = "remote_returning (Some sample_text)" and img = sample_image
         and resp = "\<lparr> response_text = Some sample_text \<rparr>" and v' = sample_suggestion
         and w = initial_world]
    r p sample_suggestion_valid
  show ?thesis by blast
qed

text \<open>
  The claim as the specification states it fails: the response
  \<^verbatim>\<open>{"column":-3.5,"confidence":7}\<close> is returned as it is, with no explanation,
  a column that is no positive integer and a confidence outside \<open>[0, 1]\<close>.
\<close>

theorem partial_result_counterexample:
  "fst (analyzeGameScreenshot (remote_returning (Some partial_text)) sample_image initial_world)
     = Inr partial_object \<and>
   \<not> valid_MoveSuggestion partial_object \<and>
   own_property partial_object (latin1 ''explanation'') = None \<and>
   own_property partial_object (latin1 ''column'') = Some (JNumber (Finite (- (7 / 2)))) \<and>
   own_property partial_object (latin1 ''confidence'') = Some (JNumber (Finite 7))"
  by (simp add: analyze_result remote_returning_apply or_else_simps texts_nonempty
      parse_partial partial_object_properties)

section \<open>The capture\<close>

text \<open>
  Claim C3, on the code.  With no screen-capture capability \<open>startCapture\<close>
  throws the "not supported" error inside its own \<^verbatim>\<open>try\<close>, and its \<^verbatim>\<open>catch\<close>
  sets \<open>cancelled_message\<close> (the French for "capture cancelled") for whatever
  was thrown.  So the message shown is the same as when the user cancels the
  prompt; \<open>unsupported_message\<close>, a different string, only reaches the console.
\<close>

theorem unsupported_reported_as_cancelled:
  "error (fst (startCapture unsupported_navigator d w)) = Some cancelled_message \<and>
   error (fst (startCapture (navigator_answering (Inl permission_denied)) d w))
     = Some cancelled_message \<and>
   cancelled_message \<noteq> unsupported_message \<and>
   console_errors (fst (startCapture unsupported_navigator d w))
     = console_errors w @ [Error_starting_capture (Error unsupported_message)]"
  by (simp add: startCapture_unsupported unsupported_navigator_simps
      startCapture_rejected navigator_answering_simps catch_capture_def messages_differ)

text \<open>
  Claim C4, as amended.  When the video and the canvas elements are both
  mounted, \<open>takeScreenshot\<close> stops every track of its stream once, after the
  frame is taken (with or without a 2d context, and whatever the analysis
  gives): each track is ended and has one more call of \<open>stop\<close>, so a run of the
  workflow that gets that far leaves all the tracks stopped.  When an element
  is missing, \<open>takeScreenshot\<close> does nothing at all: the world and the stream
  are as they were.  \<open>startCapture\<close> stops no track: the stream it hands on is
  the one \<^verbatim>\<open>getDisplayMedia\<close> resolved to.  So a run in which the stream is
  acquired and an element is missing, then or when the timer fires, ends with
  the stream as it was acquired.
\<close>

theorem takeScreenshot_stops_tracks_when_mounted:
  "(videoRef d = Some video \<and> canvasRef d = Some canvas \<longrightarrow>
      snd (takeScreenshot generateContent coerce d stream w) = map stop stream \<and>
      list_all (\<lambda>t. readyState t = Ended) (snd (takeScreenshot generateContent coerce d stream w)) \<and>
      map stop_calls (snd (takeScreenshot generateContent coerce d stream w))
        = map (\<lambda>t. stop_calls t + 1) stream) \<and>
   (videoRef d = None \<or> canvasRef d = None \<longrightarrow>
      takeScreenshot generateContent coerce d stream w = (w, stream)) \<and>
   (snd (startCapture nav d0 w) = Scheduled stream \<or>
    snd (startCapture nav d0 w) = Unattached stream \<longrightarrow>
      mediaDevices_getDisplayMedia nav = Some (Inr stream) \<or>
      mediaDevices_getDisplayMedia nav = None \<and> nav_getDisplayMedia nav = Some (Inr stream)) \<and>
   (snd (startCapture nav d0 w) = Scheduled stream \<and>
    videoRef d = Some video \<and> canvasRef d = Some canvas \<longrightarrow>
      snd (capture_workflow generateContent coerce nav d0 d w) = Some (map stop stream)) \<and>
   (snd (startCapture nav d0 w) = Unattached stream \<or>
    snd (startCapture nav d0 w) = Scheduled stream \<and> (videoRef d = None \<or> canvasRef d = None)
      \<longrightarrow> snd (capture_workflow generateContent coerce nav d0 d w) = Some stream)"
proof -
  have mounted: "snd (takeScreenshot generateContent coerce d stream w') = map stop stream"
    if "videoRef d = Some video" "canvasRef d = Some canvas" for w'
    using that by (simp add: takeScreenshot_stream)
  have unmounted: "takeScreenshot generateContent coerce d stream w' = (w', stream)"
    if "videoRef d = None \<or> canvasRef d = None" for w'
    using that by (rule takeScreenshot_unmounted)
  have acquired: "mediaDevices_getDisplayMedia nav = Some (Inr stream) \<or>
      mediaDevices_getDisplayMedia nav = None \<and> nav_getDisplayMedia nav = Some (Inr stream)"
    if "snd (startCapture nav d0 w) = Scheduled stream \<or>
        snd (startCapture nav d0 w) = Unattached stream"
    using that by (rule startCapture_stream)
  have c1: "snd (takeScreenshot generateContent coerce d stream w) = map stop stream \<and>
      list_all (\<lambda>t. readyState t = Ended) (snd (takeScreenshot generateContent coerce d stream w)) \<and>
      map stop_calls (snd (takeScreenshot generateContent coerce d stream w))
        = map (\<lambda>t. stop_calls t + 1) stream"
    if "videoRef d = Some video" "canvasRef d = Some canvas"
    using mounted [OF that] by (simp add: stop_effect list_all_iff)
  have c4: "snd (capture_workflow generateContent coerce nav d0 d w) = Some (map stop stream)"
    if "snd (startCapture nav d0 w) = Scheduled stream"
       "videoRef d = Some video" "canvasRef d = Some canvas"
    using that by (simp add: capture_workflow_stream mounted)
  have c5: "snd (capture_workflow generateContent coerce nav d0 d w) = Some stream"
    if "snd (startCapture nav d0 w) = Unattached stream \<or>
        snd (startCapture nav d0 w) = Scheduled stream \<and> (videoRef d = None \<or> canvasRef d = None)"
    using that by (auto simp: capture_workflow_stream unmounted)
  from c1 unmounted acquired c4 c5 show ?thesis by blast
qed

theorem takeScreenshot_stops_tracks_when_mounted_witness:
  "videoRef mounted_dom = Some \<lparr> videoWidth = 640, videoHeight = 480 \<rparr> \<and>
   canvasRef mounted_dom = Some \<lparr> context2d = True, toDataURL = sample_image \<rparr> \<and>
   snd (startCapture (navigator_answering (Inr [live_track, live_track])) mounted_dom initial_world)
     = Scheduled [live_track, live_track] \<and>
   mediaDevices_getDisplayMedia (navigator_answering (Inr [live_track, live_track]))
     = Some (Inr [live_track, live_track]) \<and>
   snd (capture_workflow (remote_returning (Some sample_text)) no_coercion
      (navigator_answering (Inr [live_track, live_track])) mounted_dom mounted_dom initial_world)
     = Some [\<lparr> readyState = Ended, stop_calls = 1 \<rparr>, \<lparr> readyState = Ended, stop_calls = 1 \<rparr>]"
proof -
  have v: "videoRef mounted_dom = Some \<lparr> videoWidth = 640, videoHeight = 480 \<rparr>"
    and c: "canvasRef mounted_dom = Some \<lparr> context2d = True, toDataURL = sample_image \<rparr>"
    by (simp_all add: mounted_dom_def)
  have s: "snd (startCapture (navigator_answering (Inr [live_track, live_track])) mounted_dom
      initial_world) = Scheduled [live_track, live_track]"
    by (simp add: startCapture_def navigator_answering_simps v)
  from takeScreenshot_stops_tracks_when_mounted
      [where d = mounted_dom and d0 = mounted_dom and w = initial_world
         and nav = "navigator_answering (Inr [live_track, live_track])"
         and stream = "[live_track, live_track]"
         and generateContent = "remote_returning (Some sample_text)" and coerce = no_coercion]
    v c s
  show ?thesis by (simp add: stop_def live_track_def navigator_answering_simps)
qed

text \<open>
  The claim as the specification states it fails where the component unmounts
  while a capture is in flight, which clears both refs.  Unmounted before the
  timer fires: \<open>takeScreenshot\<close> runs and changes nothing, and the run ends with
  the track of the acquired stream live and never stopped.  Unmounted while the
  prompt is open: the stream is acquired and nothing is scheduled, and again the
  track stays live.
\<close>

theorem tracks_left_live_counterexample:
  "snd (startCapture (navigator_answering (Inr [live_track])) mounted_dom initial_world)
     = Scheduled [live_track] \<and>
   snd (capture_workflow (remote_returning (Some sample_text)) no_coercion
      (navigator_answering (Inr [live_track])) mounted_dom unmounted_dom initial_world)
     = Some [\<lparr> readyState = Live, stop_calls = 0 \<rparr>] \<and>
   takeScreenshot (remote_returning (Some sample_text)) no_coercion unmounted_dom
      [live_track] initial_world = (initial_world, [\<lparr> readyState = Live, stop_calls = 0 \<rparr>]) \<and>
   snd (startCapture (navigator_answering (Inr [live_track])) unmounted_dom initial_world)
     = Unattached [live_track] \<and>
   snd (capture_workflow (remote_returning (Some sample_text)) no_coercion
      (navigator_answering (Inr [live_track])) unmounted_dom unmounted_dom initial_world)
     = Some [\<lparr> readyState = Live, stop_calls = 0 \<rparr>]"
  by (simp add: startCapture_def navigator_answering_simps mounted_dom_def unmounted_dom_def
      capture_workflow_def takeScreenshot_def live_track_def)

section \<open>The result and the celebration\<close>

text \<open>
  Claim C5.  When the response text is exactly
  \<^verbatim>\<open>{"explanation":"col 3 best","column":3,"confidence":0.92}\<close>,
  \<open>analyzeGameScreenshot\<close> returns the object with these three properties and
  values.  And whenever it returns a value whose \<open>confidence\<close> is a number above
  \<^verbatim>\<open>0.8\<close> (the double of the literal, in the comparison of the language),
  \<open>analyzeImage\<close> calls \<open>confetti\<close> once.
\<close>

theorem sample_response_returned_and_celebrated:
  "(generateContent (request_for img) = Inr resp \<and> response_text resp = Some sample_text \<longrightarrow>
      fst (analyzeGameScreenshot generateContent img w) = Inr sample_suggestion) \<and>
   (fst (analyzeGameScreenshot generateContent img w) = Inr v \<and>
    get_property v (latin1 ''confidence'') = Inr (JNumber c) \<and>
    less_than confetti_threshold c = Some True \<longrightarrow>
      confetti_calls (analyzeImage generateContent coerce img w) = confetti_calls w + 1)"
  by (auto simp: analyze_result or_else_simps texts_nonempty parse_sample
      analyzeImage_confetti)

theorem sample_response_returned_and_celebrated_witness:
  "remote_returning (Some sample_text) (request_for sample_image)
     = Inr \<lparr> response_text = Some sample_text \<rparr> \<and>
   fst (analyzeGameScreenshot (remote_returning (Some sample_text)) sample_image initial_world)
     = Inr sample_suggestion \<and>
   get_property sample_suggestion (latin1 ''confidence'')
     = Inr (JNumber (Finite (8286623314361713 / 9007199254740992))) \<and>
   less_than confetti_threshold (Finite (8286623314361713 / 9007199254740992)) = Some True \<and>
   confetti_calls (analyzeImage (remote_returning (Some sample_text)) no_coercion sample_image
     initial_world) = 1"
proof -
  have r: "remote_returning (Some sample_text) (request_for sample_image)
     = Inr \<lparr> response_text = Some sample_text \<rparr>"
    by (rule remote_returning_apply)
  have z: "confetti_calls initial_world = 0" by (simp add: initial_world_def)
  from sample_response_returned_and_celebrated
      [where generateContent = "remote_returning (Some sample_text)" and img = sample_image
         and resp = "\<lparr> response_text = Some sample_text \<rparr>" and v = sample_suggestion
         and c = "Finite (8286623314361713 / 9007199254740992)"
         and w = initial_world and coerce = no_coercion]
    r sample_confidence sample_above_threshold z
  show ?thesis by simp
qed

section \<open>Failures before the stream is acquired\<close>

text \<open>
  Claim C6.  When neither \<^verbatim>\<open>navigator.mediaDevices.getDisplayMedia\<close> nor
  \<^verbatim>\<open>navigator.getDisplayMedia\<close> is present, \<open>startCapture\<close> fails: it sets an
  error, asks for no stream and schedules nothing, so the whole run sends no
  request to the remote model.
\<close>

theorem unsupported_never_calls_inference:
  assumes "mediaDevices_getDisplayMedia nav = None" and "nav_getDisplayMedia nav = None"
  shows "snd (startCapture nav d w) = Failed \<and>
         error (fst (startCapture nav d w)) \<noteq> None \<and>
         requests (fst (startCapture nav d w)) = requests w \<and>
         getDisplayMedia_calls (fst (startCapture nav d w)) = getDisplayMedia_calls w \<and>
         capture_workflow generateContent coerce nav d d' w = (fst (startCapture nav d w), None) \<and>
         requests (fst (capture_workflow generateContent coerce nav d d' w)) = requests w"
  by (simp add: startCapture_unsupported [OF assms] capture_workflow_def catch_capture_def)

theorem unsupported_never_calls_inference_witness:
  "mediaDevices_getDisplayMedia unsupported_navigator = None \<and>
   nav_getDisplayMedia unsupported_navigator = None \<and>
   snd (startCapture unsupported_navigator mounted_dom initial_world) = Failed \<and>
   requests (fst (capture_workflow (remote_returning (Some sample_text)) no_coercion
      unsupported_navigator mounted_dom mounted_dom initial_world)) = []"
proof -
  have z: "requests initial_world = []" by (simp add: initial_world_def)
  from unsupported_never_calls_inference
      [OF unsupported_navigator_simps, where d = mounted_dom and d' = mounted_dom
         and w = initial_world and generateContent = "remote_returning (Some sample_text)"
         and coerce = no_coercion]
    unsupported_navigator_simps z
  show ?thesis by simp
qed

text \<open>
  Claim C7.  \<open>startCapture\<close> fails before it has a stream when the capability
  is absent, or when the \<^verbatim>\<open>getDisplayMedia\<close> it calls rejects.  In each case it
  ends with an error message set (a non-empty one), the loading flag false, at
  most one call of \<^verbatim>\<open>getDisplayMedia\<close> made, no request sent and nothing
  scheduled: the run is over and the button is enabled again.
\<close>

theorem capture_failure_returns_to_idle:
  assumes "mediaDevices_getDisplayMedia nav = None \<and> nav_getDisplayMedia nav = None \<or>
           mediaDevices_getDisplayMedia nav = Some (Inl e) \<or>
           mediaDevices_getDisplayMedia nav = None \<and> nav_getDisplayMedia nav = Some (Inl e)"
  shows "snd (startCapture nav d w) = Failed \<and>
         error (fst (startCapture nav d w)) = Some cancelled_message \<and>
         cancelled_message \<noteq> [] \<and>
         loading (fst (startCapture nav d w)) = False \<and>
         getDisplayMedia_calls (fst (startCapture nav d w)) \<le> getDisplayMedia_calls w + 1 \<and>
         requests (fst (startCapture nav d w)) = requests w \<and>
         capture_workflow generateContent coerce nav d d' w = (fst (startCapture nav d w), None)"
proof -
  consider (absent) "mediaDevices_getDisplayMedia nav = None" "nav_getDisplayMedia nav = None"
    | (rejected) "mediaDevices_getDisplayMedia nav = Some (Inl e) \<or>
         mediaDevices_getDisplayMedia nav = None \<and> nav_getDisplayMedia nav = Some (Inl e)"
    using assms by auto
  then show ?thesis
  proof cases
    case absent
    then show ?thesis
      by (simp add: startCapture_unsupported capture_workflow_def catch_capture_def
          cancelled_message_nonempty)
  next
    case rejected
    then show ?thesis
      by (simp add: startCapture_rejected capture_workflow_def catch_capture_def
          cancelled_message_nonempty)
  qed
qed

theorem capture_failure_returns_to_idle_witness:
  "mediaDevices_getDisplayMedia (navigator_answering (Inl permission_denied))
     = Some (Inl permission_denied) \<and>
   snd (startCapture (navigator_answering (Inl permission_denied)) mounted_dom
      (initial_world\<lparr>loading := True\<rparr>)) = Failed \<and>
   error (fst (startCapture (navigator_answering (Inl permission_denied)) mounted_dom
      (initial_world\<lparr>loading := True\<rparr>))) = Some cancelled_message \<and>
   loading (fst (startCapture (navigator_answering (Inl permission_denied)) mounted_dom
      (initial_world\<lparr>loading := True\<rparr>))) = False \<and>
   getDisplayMedia_calls (fst (startCapture (navigator_answering (Inl permission_denied))
      mounted_dom (initial_world\<lparr>loading := True\<rparr>))) = 1"
proof -
  have h: "mediaDevices_getDisplayMedia (navigator_answering (Inl permission_denied))
     = Some (Inl permission_denied)"
    by (rule navigator_answering_simps)
  then have h': "mediaDevices_getDisplayMedia (navigator_answering (Inl permission_denied)) = None \<and>
        nav_getDisplayMedia (navigator_answering (Inl permission_denied)) = None \<or>
      mediaDevices_getDisplayMedia (navigator_answering (Inl permission_denied))
        = Some (Inl permission_denied) \<or>
      mediaDevices_getDisplayMedia (navigator_answering (Inl permission_denied)) = None \<and>
        nav_getDisplayMedia (navigator_answering (Inl permission_denied))
        = Some (Inl permission_denied)"
    by simp
  have c: "getDisplayMedia_calls (fst (startCapture (navigator_answering (Inl permission_denied))
      mounted_dom (initial_world\<lparr>loading := True\<rparr>))) = 1"
    by (simp add: startCapture_rejected h catch_capture_def initial_world_def)
  from capture_failure_returns_to_idle
      [OF h', where d = mounted_dom and w = "initial_world\<lparr>loading := True\<rparr>"]
    h c
  show ?thesis by simp
qed

section \<open>Dismissing a result\<close>

text \<open>
  Claim C8.  Whatever the state, \<open>closeResult\<close> puts the suggestion, the screenshot
  and the result-visibility flag back to their initial values: \<^verbatim>\<open>null\<close>, \<^verbatim>\<open>null\<close>
  and \<^verbatim>\<open>false\<close>.
\<close>

theorem closeResult_resets:
  "suggestion (closeResult w) = JNull \<and> suggestion initial_world = JNull \<and>
   screenshot (closeResult w) = None \<and> screenshot initial_world = None \<and>
   showResult (closeResult w) = False \<and> showResult initial_world = False"
  by (simp add: closeResult_def initial_world_def)

text \<open>
  Claim C9.  \<open>closeResult\<close> writes those three cells only: the error message and
  the loading flag keep their values, and so does everything outside the
  component's state.
\<close>

theorem closeResult_frame:
  "error (closeResult w) = error w \<and> loading (closeResult w) = loading w \<and>
   video_playing (closeResult w) = video_playing w \<and>
   canvas_width (closeResult w) = canvas_width w \<and>
   canvas_height (closeResult w) = canvas_height w \<and>
   getDisplayMedia_calls (closeResult w) = getDisplayMedia_calls w \<and>
   requests (closeResult w) = requests w \<and>
   confetti_calls (closeResult w) = confetti_calls w \<and>
   console_errors (closeResult w) = console_errors w"
  by (simp add: closeResult_def)

section \<open>An image that is no data URI\<close>

text \<open>
  Claim C10.  For an input with no comma, \<^verbatim>\<open>base64Image.split(",")[1]\<close> is
  \<^verbatim>\<open>undefined\<close>.  Nothing tests it: the request goes out with that payload, and
  the outcome is the one the remote answer gives.
\<close>

theorem no_comma_sends_undefined_payload:
  assumes "0x2C \<notin> set base64Image"
  shows "at_index (split_on 0x2C base64Image) 1 = None \<and>
         image_data (request_for base64Image) = None \<and>
         requests (snd (analyzeGameScreenshot generateContent base64Image w))
           = requests w @ [request_for base64Image] \<and>
         fst (analyzeGameScreenshot generateContent base64Image w) =
           (case generateContent (request_for base64Image) of
              Inl err \<Rightarrow> Inl err
            | Inr response \<Rightarrow>
                (case JSON_parse (or_else (response_text response) (latin1 ''{}'')) of
                   Some result \<Rightarrow> Inr result
                 | None \<Rightarrow> Inl (Error parse_failed_message)))"
  using assms
  by (simp add: split_on_no_separator at_index_def request_for_def analyze_requests analyze_result)

theorem no_comma_sends_undefined_payload_witness:
  "0x2C \<notin> set (latin1 ''iVBORw0KGgo='') \<and>
   image_data (request_for (latin1 ''iVBORw0KGgo='')) = None \<and>
   requests (snd (analyzeGameScreenshot (remote_returning (Some sample_text))
      (latin1 ''iVBORw0KGgo='') initial_world)) = [request_for (latin1 ''iVBORw0KGgo='')] \<and>
   fst (analyzeGameScreenshot (remote_returning (Some sample_text)) (latin1 ''iVBORw0KGgo='')
      initial_world) = Inr sample_suggestion"
proof -
  have n: "0x2C \<notin> set (latin1 ''iVBORw0KGgo='')" by (simp add: latin1_def)
  have z: "requests initial_world = []" by (simp add: initial_world_def)
  from no_comma_sends_undefined_payload
      [OF n, where generateContent = "remote_returning (Some sample_text)" and w = initial_world]
    n z
  show ?thesis
    by (simp add: remote_returning_apply or_else_simps texts_nonempty parse_sample)
qed

end
